theory Spec2Isabelle
  imports Complex_Main
begin

section \<open>Data model\<close>

text \<open>
  Identifiers are MongoDB object ids (24 hexadecimal characters); timestamps are JavaScript
  dates, that is milliseconds since the epoch.
\<close>

type_synonym objectId = string
type_synonym timestamp = int

text \<open>
  The Movie model (\<^verbatim>\<open>models/movie.js\<close>). The document's \<^verbatim>\<open>_id\<close> is the key of the
  collection; the embedded genre document is represented by its name.
\<close>

record movieDoc =
  title :: string
  genre :: string
  numberInStock :: int
  dailyRentalRate :: real

text \<open>The schema's validators for \<^verbatim>\<open>numberInStock\<close>: \<^verbatim>\<open>min: 0, max: 255\<close>.\<close>

definition numberInStock_valid :: "int \<Rightarrow> bool" where
  "numberInStock_valid n = (0 \<le> n \<and> n \<le> 255)"

text \<open>
  Modelled from the spec: the Rental document of \<^verbatim>\<open>models/rental.js\<close>, which is not among
  the sources. A rental holds snapshots of the customer (id, name, phone) and of the movie
  (id, title, daily rental rate), \<^verbatim>\<open>dateOut\<close>, and the nullable \<^verbatim>\<open>dateReturned\<close> and
  \<^verbatim>\<open>rentalFee\<close>.
\<close>

record customerSnap =
  customer_id :: objectId
  customer_name :: string
  customer_phone :: string

record movieSnap =
  movie_id :: objectId
  movie_title :: string
  movie_dailyRentalRate :: real

record rentalDoc =
  rental_id :: objectId
  customer :: customerSnap
  movie :: movieSnap
  dateOut :: timestamp
  dateReturned :: "timestamp option"
  rentalFee :: "real option"

text \<open>The body of a return request, after the validation middleware has accepted it.\<close>

record req =
  customerId :: objectId
  movieId :: objectId

section \<open>The entity store and its calls\<close>

text \<open>
  Every call to the store is asynchronous and may reject. The calls issued and completed
  are recorded in order, so that the order of the writes can be stated.
\<close>

datatype storeOp = FindOne | Save | UpdateOne

datatype exn = StoreFault storeOp

datatype event =
    LookupIssued objectId objectId
  | LookupCompleted
  | SaveIssued objectId
  | SaveCompleted objectId
  | UpdateIssued objectId
  | UpdateCompleted objectId

record world =
  rentals :: "rentalDoc list"
  movies :: "objectId \<rightharpoonup> movieDoc"
  trace :: "event list"

text \<open>
  What a request meets outside the store's contents: the clock, and which of the store's
  calls reject.
\<close>

record env =
  now :: timestamp
  lookup_fault :: bool
  save_fault :: bool
  update_fault :: bool

definition emit :: "event \<Rightarrow> world \<Rightarrow> world" where
  "emit ev w = w\<lparr>trace := trace w @ [ev]\<rparr>"

text \<open>
  \<^verbatim>\<open>const x = await m; k x\<close>: a rejected promise throws, and the rest of the handler
  is skipped.
\<close>

definition await :: "(world \<Rightarrow> (exn + 'a) \<times> world) \<Rightarrow> ('a \<Rightarrow> world \<Rightarrow> (exn + 'b) \<times> world)
    \<Rightarrow> world \<Rightarrow> (exn + 'b) \<times> world" where
  "await m k w = (case m w of (Inl ex, w') \<Rightarrow> (Inl ex, w') | (Inr a, w') \<Rightarrow> k a w')"

subsection \<open>Rental.lookup\<close>

definition matching :: "objectId \<Rightarrow> objectId \<Rightarrow> rentalDoc \<Rightarrow> bool" where
  "matching cid mid r = (customer_id (customer r) = cid \<and> movie_id (movie r) = mid)"

fun most_recent :: "rentalDoc \<Rightarrow> rentalDoc list \<Rightarrow> rentalDoc" where
  "most_recent r [] = r"
| "most_recent r (x # xs) = most_recent (if dateOut r < dateOut x then x else r) xs"

text \<open>
  Modelled from the spec: \<^verbatim>\<open>Rental.lookup\<close> of \<^verbatim>\<open>models/rental.js\<close>, which is not among the
  sources. Among the rentals matching both identifiers it selects the one with the most
  recent \<^verbatim>\<open>dateOut\<close> (the earliest stored of them when several share it), and yields
  not-found when none matches.
\<close>

definition findLatest :: "objectId \<Rightarrow> objectId \<Rightarrow> rentalDoc list \<Rightarrow> rentalDoc option" where
  "findLatest cid mid rs =
     (case filter (matching cid mid) rs of [] \<Rightarrow> None | r # xs \<Rightarrow> Some (most_recent r xs))"

definition Rental_lookup :: "env \<Rightarrow> objectId \<Rightarrow> objectId \<Rightarrow> world
    \<Rightarrow> (exn + rentalDoc option) \<times> world" where
  "Rental_lookup e cid mid w =
     (let w1 = emit (LookupIssued cid mid) w
      in if lookup_fault e then (Inl (StoreFault FindOne), w1)
         else (Inr (findLatest cid mid (rentals w1)), emit LookupCompleted w1))"

subsection \<open>rental.return\<close>

definition msPerDay :: int where
  "msPerDay = 86400000"

text \<open>
  Modelled from the spec: the day count of \<^verbatim>\<open>rental.return\<close>. The spec leaves open whether
  a partial day rounds down or up (\<^verbatim>\<open>ceil_or_floor\<close>), so the rounding is a parameter.
\<close>

datatype rounding = Floor | Ceil

fun wholeDays :: "rounding \<Rightarrow> int \<Rightarrow> int" where
  "wholeDays Floor ms = ms div msPerDay"
| "wholeDays Ceil ms = - ((- ms) div msPerDay)"

definition numberOfRentalDays :: "rounding \<Rightarrow> timestamp \<Rightarrow> timestamp \<Rightarrow> int" where
  "numberOfRentalDays rnd out ret = wholeDays rnd (ret - out)"

text \<open>
  Modelled from the spec: \<^verbatim>\<open>rental.return\<close> of \<^verbatim>\<open>models/rental.js\<close>, which is not among the
  sources. It sets \<^verbatim>\<open>dateReturned\<close> to the current time and \<^verbatim>\<open>rentalFee\<close> to the number of
  rental days times the daily rental rate of the movie snapshot. It does not check
  \<^verbatim>\<open>dateReturned\<close> itself.
\<close>

definition rental_return :: "rounding \<Rightarrow> timestamp \<Rightarrow> rentalDoc \<Rightarrow> rentalDoc" where
  "rental_return rnd t r =
     r\<lparr>dateReturned := Some t,
       rentalFee := Some (of_int (numberOfRentalDays rnd (dateOut r) t)
                          * movie_dailyRentalRate (movie r))\<rparr>"

subsection \<open>rental.save and Movie.update\<close>

text \<open>
  \<^verbatim>\<open>rental.save()\<close> writes the document over the stored one with the same \<^verbatim>\<open>_id\<close>.
\<close>

definition replaceById :: "rentalDoc \<Rightarrow> rentalDoc list \<Rightarrow> rentalDoc list" where
  "replaceById r rs = map (\<lambda>x. if rental_id x = rental_id r then r else x) rs"

definition rental_save :: "env \<Rightarrow> rentalDoc \<Rightarrow> world \<Rightarrow> (exn + unit) \<times> world" where
  "rental_save e r w =
     (let w1 = emit (SaveIssued (rental_id r)) w
      in if save_fault e then (Inl (StoreFault Save), w1)
         else (Inr (), emit (SaveCompleted (rental_id r))
                         (w1\<lparr>rentals := replaceById r (rentals w1)\<rparr>)))"

text \<open>
  \<^verbatim>\<open>Movie.update({ _id: id }, { $inc: { numberInStock: n } })\<close>: the update operator adds
  \<^verbatim>\<open>n\<close> to the field of the document with that \<^verbatim>\<open>_id\<close>, if there is one. An update does
  not run the schema's validators.
\<close>

definition inc_numberInStock :: "objectId \<Rightarrow> int \<Rightarrow> (objectId \<rightharpoonup> movieDoc)
    \<Rightarrow> (objectId \<rightharpoonup> movieDoc)" where
  "inc_numberInStock mid n ms =
     (case ms mid of None \<Rightarrow> ms
      | Some m \<Rightarrow> ms(mid \<mapsto> m\<lparr>numberInStock := numberInStock m + n\<rparr>))"

definition Movie_update :: "env \<Rightarrow> objectId \<Rightarrow> int \<Rightarrow> world \<Rightarrow> (exn + unit) \<times> world" where
  "Movie_update e mid n w =
     (let w1 = emit (UpdateIssued mid) w
      in if update_fault e then (Inl (StoreFault UpdateOne), w1)
         else (Inr (), emit (UpdateCompleted mid)
                         (w1\<lparr>movies := inc_numberInStock mid n (movies w1)\<rparr>)))"

section \<open>The return route\<close>

datatype body = Text string | RentalBody rentalDoc

datatype response = Response nat body

definition send :: "nat \<Rightarrow> body \<Rightarrow> world \<Rightarrow> (exn + response) \<times> world" where
  "send st b w = (Inr (Response st b), w)"

text \<open>
  The handler of \<^verbatim>\<open>POST /\<close> in \<^verbatim>\<open>routes/returns.js\<close>. A stored date is an object and so
  truthy: \<^verbatim>\<open>if (rental.dateReturned)\<close> holds exactly when the field is set.
\<close>

definition returns_post :: "rounding \<Rightarrow> env \<Rightarrow> req \<Rightarrow> world \<Rightarrow> (exn + response) \<times> world" where
  "returns_post rnd e rq =
     await (Rental_lookup e (customerId rq) (movieId rq)) (\<lambda>found.
       case found of
         None \<Rightarrow> send 404 (Text ''Rental not found'')
       | Some rental \<Rightarrow>
           if dateReturned rental \<noteq> None then send 400 (Text ''Return already processed'')
           else
             let rental' = rental_return rnd (now e) rental
             in await (rental_save e rental') (\<lambda>_.
                await (Movie_update e (movie_id (movie rental')) 1) (\<lambda>_.
                send 200 (RentalBody rental'))))"

text \<open>
  The wrapper of \<^verbatim>\<open>middleware/async.js\<close>: an exception of the handler is passed to
  \<^verbatim>\<open>next\<close>, the error-handling boundary.
\<close>

datatype outcome = Sent response | PassedToNext exn

definition asyncMiddleware :: "(req \<Rightarrow> world \<Rightarrow> (exn + response) \<times> world)
    \<Rightarrow> req \<Rightarrow> world \<Rightarrow> outcome \<times> world" where
  "asyncMiddleware handler rq w =
     (case handler rq w of
        (Inl ex, w') \<Rightarrow> (PassedToNext ex, w')
      | (Inr resp, w') \<Rightarrow> (Sent resp, w'))"

text \<open>A sequence of return requests, one after the other.\<close>

fun run :: "rounding \<Rightarrow> (env \<times> req) list \<Rightarrow> world \<Rightarrow> world" where
  "run rnd [] w = w"
| "run rnd ((e, rq) # xs) w = run rnd xs (snd (returns_post rnd e rq w))"

text \<open>The events a request added to the trace.\<close>

definition emitted :: "world \<Rightarrow> world \<Rightarrow> event list" where
  "emitted w w' = drop (length (trace w)) (trace w')"

section \<open>A concrete store\<close>

text \<open>
  One customer who rented the same movie twice: the first rental is returned, the second
  one is open and is returned seven days after its checkout.
\<close>

definition customer1 :: customerSnap where
  "customer1 = \<lparr>customer_id = ''5f0c00000000000000000001'', customer_name = ''Ada Byron'',
     customer_phone = ''5550100''\<rparr>"

definition movieSnap1 :: movieSnap where
  "movieSnap1 = \<lparr>movie_id = ''5f0a00000000000000000001'', movie_title = ''Alien'',
     movie_dailyRentalRate = 2\<rparr>"

definition movie1 :: movieDoc where
  "movie1 = \<lparr>title = ''Alien'', genre = ''Horror'', numberInStock = 4, dailyRentalRate = 2\<rparr>"

definition rental0 :: rentalDoc where
  "rental0 = \<lparr>rental_id = ''5f0b00000000000000000001'', customer = customer1,
     movie = movieSnap1, dateOut = 1000, dateReturned = Some 90000000, rentalFee = Some 2\<rparr>"

definition rental1 :: rentalDoc where
  "rental1 = \<lparr>rental_id = ''5f0b00000000000000000002'', customer = customer1,
     movie = movieSnap1, dateOut = 100000000, dateReturned = None, rentalFee = None\<rparr>"

definition world1 :: world where
  "world1 = \<lparr>rentals = [rental0, rental1],
     movies = [''5f0a00000000000000000001'' \<mapsto> movie1], trace = []\<rparr>"

definition req1 :: req where
  "req1 = \<lparr>customerId = ''5f0c00000000000000000001'', movieId = ''5f0a00000000000000000001''\<rparr>"

definition env1 :: env where
  "env1 = \<lparr>now = 100000000 + 7 * 86400000, lookup_fault = False, save_fault = False,
     update_fault = False\<rparr>"

text \<open>A customer who rented nothing, and a request whose save is rejected by the store.\<close>

definition req2 :: req where
  "req2 = \<lparr>customerId = ''5f0c00000000000000000002'', movieId = ''5f0a00000000000000000001''\<rparr>"

definition env_save_fault :: env where
  "env_save_fault = \<lparr>now = 100000000 + 7 * 86400000, lookup_fault = False, save_fault = True,
     update_fault = False\<rparr>"

text \<open>A clock that reads one millisecond before the checkout of the open rental.\<close>

definition env_early :: env where
  "env_early = \<lparr>now = 99999999, lookup_fault = False, save_fault = False,
     update_fault = False\<rparr>"

text \<open>The same open rental, of a movie whose stock is at the schema's maximum.\<close>

definition movie_full :: movieDoc where
  "movie_full = \<lparr>title = ''Alien'', genre = ''Horror'', numberInStock = 255, dailyRentalRate = 2\<rparr>"

definition world_full :: world where
  "world_full = \<lparr>rentals = [rental1],
     movies = [''5f0a00000000000000000001'' \<mapsto> movie_full], trace = []\<rparr>"

lemmas example_defs = customer1_def movieSnap1_def movie1_def rental0_def rental1_def
  world1_def req1_def env1_def

section \<open>Reading the handler branch by branch\<close>

lemmas handler_defs = returns_post_def await_def Rental_lookup_def rental_save_def
  Movie_update_def send_def emit_def Let_def

lemma returns_post_not_found:
  assumes "\<not> lookup_fault e" "findLatest (customerId rq) (movieId rq) (rentals w) = None"
  shows "returns_post rnd e rq w =
    (Inr (Response 404 (Text ''Rental not found'')),
     w\<lparr>trace := trace w @ [LookupIssued (customerId rq) (movieId rq), LookupCompleted]\<rparr>)"
  using assms by (simp add: handler_defs)

lemma returns_post_already:
  assumes "\<not> lookup_fault e" "findLatest (customerId rq) (movieId rq) (rentals w) = Some r"
    "dateReturned r \<noteq> None"
  shows "returns_post rnd e rq w =
    (Inr (Response 400 (Text ''Return already processed'')),
     w\<lparr>trace := trace w @ [LookupIssued (customerId rq) (movieId rq), LookupCompleted]\<rparr>)"
  using assms by (simp add: handler_defs)

lemma returns_post_save_fault:
  assumes "\<not> lookup_fault e" "findLatest (customerId rq) (movieId rq) (rentals w) = Some r"
    "dateReturned r = None" "save_fault e"
  shows "returns_post rnd e rq w =
    (Inl (StoreFault Save),
     w\<lparr>trace := trace w @ [LookupIssued (customerId rq) (movieId rq), LookupCompleted,
        SaveIssued (rental_id r)]\<rparr>)"
  using assms by (simp add: handler_defs rental_return_def)

lemma returns_post_update_fault:
  assumes "\<not> lookup_fault e" "findLatest (customerId rq) (movieId rq) (rentals w) = Some r"
    "dateReturned r = None" "\<not> save_fault e" "update_fault e"
  shows "returns_post rnd e rq w =
    (Inl (StoreFault UpdateOne),
     w\<lparr>rentals := replaceById (rental_return rnd (now e) r) (rentals w),
       trace := trace w @ [LookupIssued (customerId rq) (movieId rq), LookupCompleted,
        SaveIssued (rental_id r), SaveCompleted (rental_id r),
        UpdateIssued (movie_id (movie r))]\<rparr>)"
  using assms by (simp add: handler_defs rental_return_def)

lemma returns_post_success:
  assumes "\<not> lookup_fault e" "findLatest (customerId rq) (movieId rq) (rentals w) = Some r"
    "dateReturned r = None" "\<not> save_fault e" "\<not> update_fault e"
  shows "returns_post rnd e rq w =
    (Inr (Response 200 (RentalBody (rental_return rnd (now e) r))),
     w\<lparr>rentals := replaceById (rental_return rnd (now e) r) (rentals w),
       movies := inc_numberInStock (movie_id (movie r)) 1 (movies w),
       trace := trace w @ [LookupIssued (customerId rq) (movieId rq), LookupCompleted,
        SaveIssued (rental_id r), SaveCompleted (rental_id r),
        UpdateIssued (movie_id (movie r)), UpdateCompleted (movie_id (movie r))]\<rparr>)"
  using assms by (simp add: handler_defs rental_return_def)

lemma returns_post_lookup_fault:
  assumes "lookup_fault e"
  shows "returns_post rnd e rq w =
    (Inl (StoreFault FindOne),
     w\<lparr>trace := trace w @ [LookupIssued (customerId rq) (movieId rq)]\<rparr>)"
  using assms by (simp add: handler_defs)

lemma returns_post_cases [case_names LookupFault NotFound Already SaveFault UpdateFault Success]:
  obtains
    "lookup_fault e"
    "returns_post rnd e rq w =
      (Inl (StoreFault FindOne),
       w\<lparr>trace := trace w @ [LookupIssued (customerId rq) (movieId rq)]\<rparr>)"
  | "\<not> lookup_fault e" "findLatest (customerId rq) (movieId rq) (rentals w) = None"
    "returns_post rnd e rq w =
      (Inr (Response 404 (Text ''Rental not found'')),
       w\<lparr>trace := trace w @ [LookupIssued (customerId rq) (movieId rq), LookupCompleted]\<rparr>)"
  | r where "\<not> lookup_fault e" "findLatest (customerId rq) (movieId rq) (rentals w) = Some r"
    "dateReturned r \<noteq> None"
    "returns_post rnd e rq w =
      (Inr (Response 400 (Text ''Return already processed'')),
       w\<lparr>trace := trace w @ [LookupIssued (customerId rq) (movieId rq), LookupCompleted]\<rparr>)"
  | r where "\<not> lookup_fault e" "findLatest (customerId rq) (movieId rq) (rentals w) = Some r"
    "dateReturned r = None" "save_fault e"
    "returns_post rnd e rq w =
      (Inl (StoreFault Save),
       w\<lparr>trace := trace w @ [LookupIssued (customerId rq) (movieId rq), LookupCompleted,
          SaveIssued (rental_id r)]\<rparr>)"
  | r where "\<not> lookup_fault e" "findLatest (customerId rq) (movieId rq) (rentals w) = Some r"
    "dateReturned r = None" "\<not> save_fault e" "update_fault e"
    "returns_post rnd e rq w =
      (Inl (StoreFault UpdateOne),
       w\<lparr>rentals := replaceById (rental_return rnd (now e) r) (rentals w),
         trace := trace w @ [LookupIssued (customerId rq) (movieId rq), LookupCompleted,
          SaveIssued (rental_id r), SaveCompleted (rental_id r),
          UpdateIssued (movie_id (movie r))]\<rparr>)"
  | r where "\<not> lookup_fault e" "findLatest (customerId rq) (movieId rq) (rentals w) = Some r"
    "dateReturned r = None" "\<not> save_fault e" "\<not> update_fault e"
    "returns_post rnd e rq w =
      (Inr (Response 200 (RentalBody (rental_return rnd (now e) r))),
       w\<lparr>rentals := replaceById (rental_return rnd (now e) r) (rentals w),
         movies := inc_numberInStock (movie_id (movie r)) 1 (movies w),
         trace := trace w @ [LookupIssued (customerId rq) (movieId rq), LookupCompleted,
          SaveIssued (rental_id r), SaveCompleted (rental_id r),
          UpdateIssued (movie_id (movie r)), UpdateCompleted (movie_id (movie r))]\<rparr>)"
proof (cases "lookup_fault e")
  case True
  then show ?thesis using that(1) returns_post_lookup_fault by blast
next
  case nf: False
  show ?thesis
  proof (cases "findLatest (customerId rq) (movieId rq) (rentals w)")
    case None
    with nf show ?thesis using that(2) returns_post_not_found by blast
  next
    case found: (Some r)
    show ?thesis
    proof (cases "dateReturned r = None")
      case False
      with nf found show ?thesis using that(3) returns_post_already by blast
    next
      case "open": True
      show ?thesis
      proof (cases "save_fault e")
        case True
        with nf found "open" show ?thesis using that(4) returns_post_save_fault by blast
      next
        case ns: False
        show ?thesis
        proof (cases "update_fault e")
          case True
          with nf found "open" ns show ?thesis
            using that(5) returns_post_update_fault by blast
        next
          case False
          with nf found "open" ns show ?thesis
            using that(6) returns_post_success by blast
        qed
      qed
    qed
  qed
qed

lemma returns_post_emitted:
  "\<exists>cid mid rid m. emitted w (snd (returns_post rnd e rq w)) \<in>
     {[LookupIssued cid mid],
      [LookupIssued cid mid, LookupCompleted],
      [LookupIssued cid mid, LookupCompleted, SaveIssued rid],
      [LookupIssued cid mid, LookupCompleted, SaveIssued rid, SaveCompleted rid,
       UpdateIssued m],
      [LookupIssued cid mid, LookupCompleted, SaveIssued rid, SaveCompleted rid,
       UpdateIssued m, UpdateCompleted m]}"
  by (cases rule: returns_post_cases [of e rnd rq w]) (simp_all add: emitted_def)

lemma returns_post_trace:
  "trace (snd (returns_post rnd e rq w)) = trace w @ emitted w (snd (returns_post rnd e rq w))"
  by (cases rule: returns_post_cases [of e rnd rq w]) (simp_all add: emitted_def)

section \<open>Lookup selects the most recent checkout\<close>

lemma most_recent_mem: "most_recent r xs \<in> set (r # xs)"
  by (induction xs arbitrary: r) (auto split: if_splits)

lemma most_recent_ge_start: "dateOut r \<le> dateOut (most_recent r xs)"
proof (induction xs arbitrary: r)
  case Nil
  show ?case by simp
next
  case (Cons y ys)
  show ?case
  proof (cases "dateOut r < dateOut y")
    case True
    have "dateOut y \<le> dateOut (most_recent y ys)" by (rule Cons.IH)
    with True show ?thesis by simp
  next
    case False
    with Cons.IH [of r] show ?thesis by simp
  qed
qed

lemma most_recent_ge: "x \<in> set xs \<Longrightarrow> dateOut x \<le> dateOut (most_recent r xs)"
proof (induction xs arbitrary: r)
  case Nil
  then show ?case by simp
next
  case (Cons y ys)
  let ?r' = "if dateOut r < dateOut y then y else r"
  show ?case
  proof (cases "x = y")
    case True
    have "dateOut y \<le> dateOut ?r'" by simp
    also have "\<dots> \<le> dateOut (most_recent ?r' ys)" by (rule most_recent_ge_start)
    finally show ?thesis using True by simp
  next
    case False
    with Cons.prems have "x \<in> set ys" by simp
    then have "dateOut x \<le> dateOut (most_recent ?r' ys)" by (rule Cons.IH)
    then show ?thesis by simp
  qed
qed

lemma findLatest_None_iff:
  "findLatest cid mid rs = None \<longleftrightarrow> (\<forall>r\<in>set rs. \<not> matching cid mid r)"
proof -
  have "findLatest cid mid rs = None \<longleftrightarrow> filter (matching cid mid) rs = []"
    by (simp add: findLatest_def split: list.splits)
  then show ?thesis by (simp add: filter_empty_conv)
qed

lemma findLatest_mem:
  assumes "findLatest cid mid rs = Some r"
  shows "r \<in> set rs" and "matching cid mid r"
proof -
  from assms obtain a xs where f: "filter (matching cid mid) rs = a # xs"
    and r: "r = most_recent a xs"
    by (auto simp: findLatest_def split: list.splits)
  have "r \<in> set (filter (matching cid mid) rs)"
    unfolding f r by (rule most_recent_mem)
  then show "r \<in> set rs" and "matching cid mid r" by simp_all
qed

lemma findLatest_latest:
  assumes "findLatest cid mid rs = Some r" and "x \<in> set rs" and "matching cid mid x"
  shows "dateOut x \<le> dateOut r"
proof -
  from assms(1) obtain a xs where f: "filter (matching cid mid) rs = a # xs"
    and r: "r = most_recent a xs"
    by (auto simp: findLatest_def split: list.splits)
  from assms(2,3) have "x \<in> set (a # xs)" unfolding f [symmetric] by simp
  then show ?thesis
    using most_recent_ge_start [of a xs] most_recent_ge [of x xs a] by (auto simp: r)
qed

lemma most_recent_map:
  assumes "\<forall>x\<in>set (r # xs). dateOut (g x) = dateOut x"
  shows "most_recent (g r) (map g xs) = g (most_recent r xs)"
  using assms by (induction xs arbitrary: r) auto

lemma findLatest_map:
  assumes "\<forall>x\<in>set rs. matching cid mid (g x) = matching cid mid x \<and> dateOut (g x) = dateOut x"
  shows "findLatest cid mid (map g rs) = map_option g (findLatest cid mid rs)"
proof -
  have f: "filter (matching cid mid) (map g rs) = map g (filter (matching cid mid) rs)"
    using assms by (induction rs) auto
  show ?thesis
  proof (cases "filter (matching cid mid) rs")
    case Nil
    then show ?thesis by (simp add: findLatest_def f)
  next
    case (Cons a xs)
    have "set (a # xs) \<subseteq> set rs" unfolding Cons [symmetric] by auto
    with assms have "\<forall>x\<in>set (a # xs). dateOut (g x) = dateOut x" by blast
    then have "most_recent (g a) (map g xs) = g (most_recent a xs)" by (rule most_recent_map)
    then show ?thesis by (simp add: findLatest_def f Cons)
  qed
qed

section \<open>Returning and saving a rental\<close>

lemma rental_return_keeps [simp]:
  "rental_id (rental_return rnd t r) = rental_id r"
  "customer (rental_return rnd t r) = customer r"
  "movie (rental_return rnd t r) = movie r"
  "dateOut (rental_return rnd t r) = dateOut r"
  "dateReturned (rental_return rnd t r) = Some t"
  by (simp_all add: rental_return_def)

lemma replaceById_ids [simp]: "map rental_id (replaceById r rs) = map rental_id rs"
  by (induction rs) (auto simp: replaceById_def)

lemma unique_id:
  assumes "distinct (map rental_id rs)" "x \<in> set rs" "y \<in> set rs" "rental_id x = rental_id y"
  shows "x = y"
  using assms by (meson distinct_map inj_onD)

lemma replaceById_mem:
  assumes "r \<in> set rs" "rental_id r' = rental_id r"
  shows "r' \<in> set (replaceById r' rs)"
  using assms by (force simp: replaceById_def)

lemma replaceById_other:
  assumes "x \<in> set rs" "rental_id x \<noteq> rental_id r'"
  shows "x \<in> set (replaceById r' rs)"
  using assms by (force simp: replaceById_def)

lemma findLatest_after_save:
  assumes d: "distinct (map rental_id rs)"
    and f: "findLatest cid mid rs = Some r"
  shows "findLatest cid mid (replaceById (rental_return rnd t r) rs) = Some (rental_return rnd t r)"
proof -
  let ?r' = "rental_return rnd t r"
  let ?g = "\<lambda>x. if rental_id x = rental_id ?r' then ?r' else x"
  from f have r: "r \<in> set rs" by (rule findLatest_mem)
  have same: "?g x = (if x = r then ?r' else x)" if "x \<in> set rs" for x
    using unique_id [OF d that r] by auto
  have "\<forall>x\<in>set rs. matching cid mid (?g x) = matching cid mid x \<and> dateOut (?g x) = dateOut x"
    using same by (auto simp: matching_def)
  then have "findLatest cid mid (map ?g rs) = map_option ?g (findLatest cid mid rs)"
    by (rule findLatest_map)
  then show ?thesis by (simp add: replaceById_def f)
qed

lemma numberOfRentalDays_nonneg:
  assumes "out \<le> ret"
  shows "0 \<le> numberOfRentalDays rnd out ret"
proof (cases rnd)
  case Floor
  with assms show ?thesis
    by (simp add: numberOfRentalDays_def msPerDay_def pos_imp_zdiv_nonneg_iff)
next
  case Ceil
  have "(out - ret) div 86400000 \<le> 0" using assms by (simp add: div_nonpos_pos_le0)
  with Ceil show ?thesis
    by (simp add: numberOfRentalDays_def msPerDay_def)
qed

lemma numberOfRentalDays_same: "numberOfRentalDays rnd t t = 0"
  by (cases rnd) (simp_all add: numberOfRentalDays_def)

lemma numberOfRentalDays_week: "numberOfRentalDays rnd t (t + 7 * msPerDay) = 7"
  by (cases rnd) (simp_all add: numberOfRentalDays_def msPerDay_def)

section \<open>What a request does to the stored rentals\<close>

lemma returns_post_ids:
  "map rental_id (rentals (snd (returns_post rnd e rq w))) = map rental_id (rentals w)"
  by (cases rule: returns_post_cases [of e rnd rq w]) simp_all

lemma run_ids: "map rental_id (rentals (run rnd xs w)) = map rental_id (rentals w)"
  by (induction xs arbitrary: w) (auto simp: returns_post_ids)

lemma returns_post_rentals:
  obtains "rentals (snd (returns_post rnd e rq w)) = rentals w"
    "\<forall>r'. fst (returns_post rnd e rq w) \<noteq> Inr (Response 200 (RentalBody r'))"
  | r where "findLatest (customerId rq) (movieId rq) (rentals w) = Some r"
    "dateReturned r = None"
    "rentals (snd (returns_post rnd e rq w)) = replaceById (rental_return rnd (now e) r) (rentals w)"
    "\<forall>r'. fst (returns_post rnd e rq w) = Inr (Response 200 (RentalBody r'))
        \<longrightarrow> r' = rental_return rnd (now e) r"
proof (cases rule: returns_post_cases [of e rnd rq w])
  case LookupFault
  then show ?thesis by (intro that(1)) simp_all
next
  case NotFound
  then show ?thesis by (intro that(1)) simp_all
next
  case (Already r)
  then show ?thesis by (intro that(1)) simp_all
next
  case (SaveFault r)
  then show ?thesis by (intro that(1)) simp_all
next
  case (UpdateFault r)
  then show ?thesis by (intro that(2) [of r]) simp_all
next
  case (Success r)
  then show ?thesis by (intro that(2) [of r]) simp_all
qed

lemma distinct_ids_differ:
  assumes "distinct (map rental_id rs)" "x \<in> set rs" "y \<in> set rs" "x \<noteq> y"
  shows "rental_id x \<noteq> rental_id y"
  using assms unique_id by blast

lemma returned_rental_kept:
  assumes d: "distinct (map rental_id (rentals w))" and r: "r \<in> set (rentals w)"
    and closed: "dateReturned r \<noteq> None"
  shows "r \<in> set (rentals (snd (returns_post rnd e rq w)))"
proof (cases rule: returns_post_rentals [of rnd e rq w])
  case 1
  with r show ?thesis by simp
next
  case (2 r0)
  from 2(1) have "r0 \<in> set (rentals w)" by (rule findLatest_mem)
  moreover from closed 2(2) have "r \<noteq> r0" by auto
  ultimately have "rental_id r \<noteq> rental_id (rental_return rnd (now e) r0)"
    using distinct_ids_differ [OF d r] by simp
  with r show ?thesis unfolding 2(3) by (rule replaceById_other)
qed

lemma returned_rental_kept_run:
  assumes "distinct (map rental_id (rentals w))" and "r \<in> set (rentals w)"
    and "dateReturned r \<noteq> None"
  shows "r \<in> set (rentals (run rnd xs w))"
  using assms
proof (induction xs arbitrary: w)
  case Nil
  then show ?case by simp
next
  case (Cons x xs)
  obtain e rq where x: "x = (e, rq)" by (cases x)
  let ?w' = "snd (returns_post rnd e rq w)"
  have "distinct (map rental_id (rentals ?w'))"
    using Cons.prems(1) by (simp add: returns_post_ids)
  moreover have "r \<in> set (rentals ?w')"
    using Cons.prems by (rule returned_rental_kept)
  ultimately have "r \<in> set (rentals (run rnd xs ?w'))"
    using Cons.prems(3) by (rule Cons.IH)
  then show ?case by (simp add: x)
qed

lemma returned_rental_not_processed:
  assumes d: "distinct (map rental_id (rentals w))" and r: "r \<in> set (rentals w)"
    and closed: "dateReturned r \<noteq> None" and id: "rental_id r' = rental_id r"
  shows "fst (returns_post rnd e rq w) \<noteq> Inr (Response 200 (RentalBody r'))"
proof (cases rule: returns_post_rentals [of rnd e rq w])
  case 1
  then show ?thesis by simp
next
  case (2 r0)
  from 2(1) have "r0 \<in> set (rentals w)" by (rule findLatest_mem)
  moreover from closed 2(2) have "r \<noteq> r0" by auto
  ultimately have "rental_id r \<noteq> rental_id (rental_return rnd (now e) r0)"
    using distinct_ids_differ [OF d r] by simp
  with id have "r' \<noteq> rental_return rnd (now e) r0" by auto
  with 2(4) show ?thesis by blast
qed

lemma open_rental_step:
  assumes d: "distinct (map rental_id (rentals w))" and r: "r \<in> set (rentals w)"
  shows "r \<in> set (rentals (snd (returns_post rnd e rq w)))
    \<or> (findLatest (customerId rq) (movieId rq) (rentals w) = Some r
       \<and> rental_return rnd (now e) r \<in> set (rentals (snd (returns_post rnd e rq w))))"
proof (cases rule: returns_post_rentals [of rnd e rq w])
  case 1
  with r show ?thesis by simp
next
  case (2 r0)
  show ?thesis
  proof (cases "r = r0")
    case True
    have "rental_return rnd (now e) r \<in> set (replaceById (rental_return rnd (now e) r) (rentals w))"
      using r by (rule replaceById_mem) simp
    with 2 True show ?thesis by simp
  next
    case False
    from 2(1) have "r0 \<in> set (rentals w)" by (rule findLatest_mem)
    with False have "rental_id r \<noteq> rental_id (rental_return rnd (now e) r0)"
      using distinct_ids_differ [OF d r] by simp
    with r have "r \<in> set (replaceById (rental_return rnd (now e) r0) (rentals w))"
      by (rule replaceById_other)
    with 2(3) show ?thesis by simp
  qed
qed

section \<open>The claims\<close>

text \<open>
  C1: when the pair resolves to a rental whose \<^verbatim>\<open>dateReturned\<close> is absent, its movie
  exists and no store call rejects, the handler answers 200 with the updated rental, which
  is the one now stored: its \<^verbatim>\<open>dateReturned\<close> is the current time, its \<^verbatim>\<open>rentalFee\<close> is the
  number of rental days times the daily rate, and the referenced movie's \<^verbatim>\<open>numberInStock\<close>
  has grown by exactly 1, no other movie being touched. The handler compares no dates and
  checks no sign: \<^verbatim>\<open>dateReturned\<close> is not before \<^verbatim>\<open>dateOut\<close> when the checkout is not later
  than the current time, and the fee is not negative when moreover the daily rate is not.
\<close>

theorem return_sets_fields:
  assumes "\<not> lookup_fault e" and "\<not> save_fault e" and "\<not> update_fault e"
    and "findLatest (customerId rq) (movieId rq) (rentals w) = Some r"
    and "dateReturned r = None"
    and "movies w (movie_id (movie r)) = Some m"
  shows "\<exists>r' w'. returns_post rnd e rq w = (Inr (Response 200 (RentalBody r')), w')
      \<and> r' \<in> set (rentals w') \<and> rental_id r' = rental_id r \<and> dateOut r' = dateOut r
      \<and> dateReturned r' = Some (now e)
      \<and> rentalFee r' = Some (of_int (numberOfRentalDays rnd (dateOut r) (now e))
                            * movie_dailyRentalRate (movie r))
      \<and> (dateOut r \<le> now e \<longrightarrow> (\<exists>d. dateReturned r' = Some d \<and> dateOut r' \<le> d))
      \<and> (dateOut r \<le> now e \<and> 0 \<le> movie_dailyRentalRate (movie r)
           \<longrightarrow> (\<exists>fee. rentalFee r' = Some fee \<and> 0 \<le> fee))
      \<and> movies w' (movie_id (movie r)) = Some (m\<lparr>numberInStock := numberInStock m + 1\<rparr>)
      \<and> (\<forall>k. k \<noteq> movie_id (movie r) \<longrightarrow> movies w' k = movies w k)"
proof -
  let ?r' = "rental_return rnd (now e) r"
  define w' where "w' = snd (returns_post rnd e rq w)"
  note success = returns_post_success [OF assms(1,4,5,2,3), of rnd]
  have resp: "returns_post rnd e rq w = (Inr (Response 200 (RentalBody ?r')), w')"
    by (simp add: w'_def success)
  from assms(4) have mem: "r \<in> set (rentals w)" by (rule findLatest_mem)
  have "?r' \<in> set (replaceById ?r' (rentals w))"
    using mem by (rule replaceById_mem) simp
  then have stored: "?r' \<in> set (rentals w')"
    by (simp add: w'_def success)
  have fee: "rentalFee ?r' = Some (of_int (numberOfRentalDays rnd (dateOut r) (now e))
      * movie_dailyRentalRate (movie r))"
    by (simp add: rental_return_def)
  have later: "\<exists>d. dateReturned ?r' = Some d \<and> dateOut ?r' \<le> d" if "dateOut r \<le> now e"
    using that by simp
  have nonneg: "\<exists>fee. rentalFee ?r' = Some fee \<and> 0 \<le> fee"
    if "dateOut r \<le> now e \<and> 0 \<le> movie_dailyRentalRate (movie r)"
  proof -
    from that have "0 \<le> numberOfRentalDays rnd (dateOut r) (now e)"
      by (simp add: numberOfRentalDays_nonneg)
    with that show ?thesis by (simp add: fee)
  qed
  have stock: "movies w' (movie_id (movie r)) = Some (m\<lparr>numberInStock := numberInStock m + 1\<rparr>)"
    using assms(6) by (simp add: w'_def success inc_numberInStock_def)
  have others: "\<forall>k. k \<noteq> movie_id (movie r) \<longrightarrow> movies w' k = movies w k"
    by (simp add: w'_def success inc_numberInStock_def split: option.splits)
  have keeps: "rental_id ?r' = rental_id r" "dateOut ?r' = dateOut r"
    "dateReturned ?r' = Some (now e)"
    by simp_all
  from resp stored keeps fee later nonneg stock others show ?thesis by blast
qed

theorem return_sets_fields_witness:
  "\<not> lookup_fault env1 \<and> \<not> save_fault env1 \<and> \<not> update_fault env1
   \<and> findLatest (customerId req1) (movieId req1) (rentals world1) = Some rental1
   \<and> dateReturned rental1 = None
   \<and> movies world1 (movie_id (movie rental1)) = Some movie1
   \<and> dateOut rental1 \<le> now env1 \<and> 0 \<le> movie_dailyRentalRate (movie rental1)
   \<and> (\<exists>r' w'. returns_post Floor env1 req1 world1 = (Inr (Response 200 (RentalBody r')), w')
      \<and> r' \<in> set (rentals w') \<and> rental_id r' = rental_id rental1
      \<and> dateReturned r' = Some (now env1)
      \<and> (\<exists>d. dateReturned r' = Some d \<and> dateOut r' \<le> d)
      \<and> (\<exists>fee. rentalFee r' = Some fee \<and> 0 \<le> fee)
      \<and> movies w' (movie_id (movie rental1))
          = Some (movie1\<lparr>numberInStock := numberInStock movie1 + 1\<rparr>))"
proof -
  have h1: "\<not> lookup_fault env1" and h2: "\<not> save_fault env1" and h3: "\<not> update_fault env1"
    by (simp_all add: env1_def)
  have h4: "findLatest (customerId req1) (movieId req1) (rentals world1) = Some rental1"
    by (simp add: example_defs findLatest_def matching_def)
  have h5: "dateReturned rental1 = None" by (simp add: rental1_def)
  have h6: "movies world1 (movie_id (movie rental1)) = Some movie1"
    by (simp add: world1_def rental1_def movieSnap1_def)
  have h7: "dateOut rental1 \<le> now env1" by (simp add: rental1_def env1_def)
  have h8: "0 \<le> movie_dailyRentalRate (movie rental1)" by (simp add: rental1_def movieSnap1_def)
  show ?thesis
    using h1 h2 h3 h4 h5 h6 h7 h8 return_sets_fields [OF h1 h2 h3 h4 h5 h6, of Floor]
    by blast
qed

text \<open>
  Without that condition on the clock the claim fails: read one millisecond before the
  checkout, the return is answered with 200, a \<^verbatim>\<open>dateReturned\<close> before \<^verbatim>\<open>dateOut\<close> and,
  the day count rounded down, a fee of -2.
\<close>

theorem return_sets_fields_counterexample:
  "findLatest (customerId req1) (movieId req1) (rentals world1) = Some rental1
   \<and> dateReturned rental1 = None
   \<and> (\<exists>r' w'. returns_post Floor env_early req1 world1 = (Inr (Response 200 (RentalBody r')), w')
      \<and> dateReturned r' = Some 99999999 \<and> dateOut r' = 100000000
      \<and> 99999999 < dateOut r'
      \<and> rentalFee r' = Some (- 2) \<and> (- 2 :: real) < 0)"
proof -
  have found: "findLatest (customerId req1) (movieId req1) (rentals world1) = Some rental1"
    by (simp add: example_defs findLatest_def matching_def)
  have ok: "\<not> lookup_fault env_early" "\<not> save_fault env_early" "\<not> update_fault env_early"
    by (simp_all add: env_early_def)
  have "open": "dateReturned rental1 = None"
    by (simp add: rental1_def)
  let ?r' = "rental_return Floor (now env_early) rental1"
  define w' where "w' = snd (returns_post Floor env_early req1 world1)"
  have resp: "returns_post Floor env_early req1 world1 = (Inr (Response 200 (RentalBody ?r')), w')"
    by (simp add: w'_def returns_post_success [OF ok(1) found "open" ok(2,3)])
  have vals: "dateReturned ?r' = Some 99999999" "dateOut ?r' = 100000000"
    "99999999 < dateOut ?r'" "rentalFee ?r' = Some (- 2)"
    by (simp_all add: rental_return_def numberOfRentalDays_def msPerDay_def env_early_def
        rental1_def movieSnap1_def)
  have neg: "(- 2 :: real) < 0" by simp
  from found "open" resp vals neg show ?thesis by blast
qed

text \<open>
  C2: on a successful return the fee of the rental in the response is the number of whole
  rental days between \<^verbatim>\<open>dateOut\<close> and \<^verbatim>\<open>dateReturned\<close> times the daily rental rate, under
  either rounding; at a daily rate of 2, seven days after checkout, it is 14.
\<close>

theorem fee_is_days_times_rate:
  assumes "returns_post rnd e rq w = (Inr (Response 200 (RentalBody r')), w')"
  shows "\<exists>d. dateReturned r' = Some d
      \<and> rentalFee r' = Some (of_int (numberOfRentalDays rnd (dateOut r') d)
                            * movie_dailyRentalRate (movie r'))
      \<and> (movie_dailyRentalRate (movie r') = 2 \<and> d = dateOut r' + 7 * msPerDay
           \<longrightarrow> rentalFee r' = Some 14)"
proof -
  let ?found = "findLatest (customerId rq) (movieId rq) (rentals w)"
  have nf: "\<not> lookup_fault e"
    using assms returns_post_lookup_fault [of e rnd rq w] by auto
  obtain r where found: "?found = Some r"
    using assms nf returns_post_not_found [of e rq w rnd] by (cases ?found) auto
  have "open": "dateReturned r = None"
    using assms returns_post_already [OF nf found, of rnd] by (cases "dateReturned r") auto
  have ns: "\<not> save_fault e"
    using assms returns_post_save_fault [OF nf found "open", of rnd] by auto
  have nu: "\<not> update_fault e"
    using assms returns_post_update_fault [OF nf found "open" ns, of rnd] by auto
  have r': "r' = rental_return rnd (now e) r"
    using assms returns_post_success [OF nf found "open" ns nu, of rnd] by simp
  have fee: "rentalFee r' = Some (of_int (numberOfRentalDays rnd (dateOut r') (now e))
      * movie_dailyRentalRate (movie r'))"
    by (simp add: r' rental_return_def)
  have ret: "dateReturned r' = Some (now e)"
    by (simp add: r')
  have week: "rentalFee r' = Some 14"
    if "movie_dailyRentalRate (movie r') = 2" and "now e = dateOut r' + 7 * msPerDay"
    using that by (simp add: fee numberOfRentalDays_week)
  show ?thesis
  proof (intro exI [of _ "now e"] conjI impI)
    show "dateReturned r' = Some (now e)" by (rule ret)
    show "rentalFee r' = Some (of_int (numberOfRentalDays rnd (dateOut r') (now e))
        * movie_dailyRentalRate (movie r'))" by (rule fee)
    show "rentalFee r' = Some 14"
      if "movie_dailyRentalRate (movie r') = 2 \<and> now e = dateOut r' + 7 * msPerDay"
      using that week by blast
  qed
qed

theorem fee_is_days_times_rate_witness:
  "returns_post Floor env1 req1 world1 =
     (Inr (Response 200 (RentalBody (rental_return Floor (now env1) rental1))),
      snd (returns_post Floor env1 req1 world1))
   \<and> movie_dailyRentalRate (movie (rental_return Floor (now env1) rental1)) = 2
   \<and> now env1 = dateOut (rental_return Floor (now env1) rental1) + 7 * msPerDay
   \<and> rentalFee (rental_return Floor (now env1) rental1) = Some 14"
proof -
  have found: "findLatest (customerId req1) (movieId req1) (rentals world1) = Some rental1"
    by (simp add: example_defs findLatest_def matching_def)
  have ok: "\<not> lookup_fault env1" "\<not> save_fault env1" "\<not> update_fault env1"
    by (simp_all add: env1_def)
  have "open": "dateReturned rental1 = None"
    by (simp add: rental1_def)
  have h: "returns_post Floor env1 req1 world1 =
     (Inr (Response 200 (RentalBody (rental_return Floor (now env1) rental1))),
      snd (returns_post Floor env1 req1 world1))"
    unfolding returns_post_success [OF ok(1) found "open" ok(2,3)] by simp
  have rate: "movie_dailyRentalRate (movie (rental_return Floor (now env1) rental1)) = 2"
    by (simp add: rental1_def movieSnap1_def)
  have week: "now env1 = dateOut (rental_return Floor (now env1) rental1) + 7 * msPerDay"
    by (simp add: rental1_def env1_def msPerDay_def)
  from fee_is_days_times_rate [OF h] obtain d
    where d: "dateReturned (rental_return Floor (now env1) rental1) = Some d"
      and imp: "movie_dailyRentalRate (movie (rental_return Floor (now env1) rental1)) = 2
        \<and> d = dateOut (rental_return Floor (now env1) rental1) + 7 * msPerDay
        \<longrightarrow> rentalFee (rental_return Floor (now env1) rental1) = Some 14"
    by blast
  from d have "d = now env1" by simp
  with imp rate week have "rentalFee (rental_return Floor (now env1) rental1) = Some 14"
    by blast
  with h rate week show ?thesis by blast
qed

text \<open>
  C3: two return requests in sequence for the same pair, the rental it resolves to being
  open: the first succeeds with 200, the second is rejected with 400 and the body
  "Return already processed", and the second changes neither the movies nor the rentals, so
  that \<^verbatim>\<open>numberInStock\<close> has grown by 1 over the two requests. Stored rentals have distinct
  \<^verbatim>\<open>_id\<close>s, and the store calls the requests make do not reject.
\<close>

theorem second_return_rejected:
  assumes "distinct (map rental_id (rentals w))"
    and "\<not> lookup_fault e1" and "\<not> save_fault e1" and "\<not> update_fault e1"
    and "\<not> lookup_fault e2"
    and "findLatest (customerId rq) (movieId rq) (rentals w) = Some r"
    and "dateReturned r = None"
    and "movies w (movie_id (movie r)) = Some m"
  shows "\<exists>r' w1 w2. returns_post rnd e1 rq w = (Inr (Response 200 (RentalBody r')), w1)
      \<and> returns_post rnd e2 rq w1 = (Inr (Response 400 (Text ''Return already processed'')), w2)
      \<and> movies w1 (movie_id (movie r)) = Some (m\<lparr>numberInStock := numberInStock m + 1\<rparr>)
      \<and> movies w2 = movies w1 \<and> rentals w2 = rentals w1"
proof -
  let ?r' = "rental_return rnd (now e1) r"
  define w1 where "w1 = snd (returns_post rnd e1 rq w)"
  note first = returns_post_success [OF assms(2,6,7,3,4), of rnd]
  have a: "returns_post rnd e1 rq w = (Inr (Response 200 (RentalBody ?r')), w1)"
    by (simp add: w1_def first)
  have rentals1: "rentals w1 = replaceById ?r' (rentals w)"
    by (simp add: w1_def first)
  have found1: "findLatest (customerId rq) (movieId rq) (rentals w1) = Some ?r'"
    unfolding rentals1 using assms(1,6) by (rule findLatest_after_save)
  have closed: "dateReturned ?r' \<noteq> None"
    by simp
  define w2 where "w2 = snd (returns_post rnd e2 rq w1)"
  note second = returns_post_already [OF assms(5) found1 closed, of rnd]
  have b: "returns_post rnd e2 rq w1 = (Inr (Response 400 (Text ''Return already processed'')), w2)"
    by (simp add: w2_def second)
  have same: "movies w2 = movies w1" "rentals w2 = rentals w1"
    by (simp_all add: w2_def second)
  have stock: "movies w1 (movie_id (movie r)) = Some (m\<lparr>numberInStock := numberInStock m + 1\<rparr>)"
    using assms(8) by (simp add: w1_def first inc_numberInStock_def)
  from a b stock same show ?thesis by blast
qed

theorem second_return_rejected_witness:
  "distinct (map rental_id (rentals world1))
   \<and> findLatest (customerId req1) (movieId req1) (rentals world1) = Some rental1
   \<and> dateReturned rental1 = None
   \<and> movies world1 (movie_id (movie rental1)) = Some movie1
   \<and> (\<exists>r' w1 w2. returns_post Ceil env1 req1 world1 = (Inr (Response 200 (RentalBody r')), w1)
      \<and> returns_post Ceil env1 req1 w1 = (Inr (Response 400 (Text ''Return already processed'')), w2)
      \<and> movies w1 (movie_id (movie rental1)) = Some (movie1\<lparr>numberInStock := numberInStock movie1 + 1\<rparr>)
      \<and> movies w2 = movies w1 \<and> rentals w2 = rentals w1)"
proof -
  have h1: "distinct (map rental_id (rentals world1))"
    by (simp add: world1_def rental0_def rental1_def)
  have h2: "\<not> lookup_fault env1" and h3: "\<not> save_fault env1" and h4: "\<not> update_fault env1"
    by (simp_all add: env1_def)
  have h6: "findLatest (customerId req1) (movieId req1) (rentals world1) = Some rental1"
    by (simp add: example_defs findLatest_def matching_def)
  have h7: "dateReturned rental1 = None" by (simp add: rental1_def)
  have h8: "movies world1 (movie_id (movie rental1)) = Some movie1"
    by (simp add: world1_def rental1_def movieSnap1_def)
  show ?thesis
    using h1 h6 h7 h8 second_return_rejected [OF h1 h2 h3 h4 h2 h6 h7 h8, of Ceil]
    by blast
qed

text \<open>
  C4: when no stored rental matches the pair, the handler answers 404 with the body
  "Rental not found"; rentals and movies are as before, and the only call made to the
  store is the lookup.
\<close>

theorem not_found_changes_nothing:
  assumes "\<forall>r\<in>set (rentals w). \<not> matching (customerId rq) (movieId rq) r"
    and "\<not> lookup_fault e"
  shows "\<exists>w'. returns_post rnd e rq w = (Inr (Response 404 (Text ''Rental not found'')), w')
      \<and> rentals w' = rentals w \<and> movies w' = movies w
      \<and> emitted w w' = [LookupIssued (customerId rq) (movieId rq), LookupCompleted]"
proof -
  have "findLatest (customerId rq) (movieId rq) (rentals w) = None"
    using assms(1) by (simp add: findLatest_None_iff)
  with assms(2) show ?thesis
    by (simp add: returns_post_not_found emitted_def)
qed

theorem not_found_changes_nothing_witness:
  "filter (matching (customerId req2) (movieId req2)) (rentals world1) = []
   \<and> \<not> lookup_fault env1
   \<and> (\<exists>w'. returns_post Floor env1 req2 world1 = (Inr (Response 404 (Text ''Rental not found'')), w')
      \<and> rentals w' = rentals world1 \<and> movies w' = movies world1
      \<and> emitted world1 w' = [LookupIssued (customerId req2) (movieId req2), LookupCompleted])"
proof -
  have h1: "\<forall>r\<in>set (rentals world1). \<not> matching (customerId req2) (movieId req2) r"
    by (simp add: example_defs req2_def matching_def)
  have h2: "\<not> lookup_fault env1" by (simp add: env1_def)
  have h0: "filter (matching (customerId req2) (movieId req2)) (rentals world1) = []"
    using h1 by (simp add: filter_empty_conv)
  show ?thesis
    using h0 h2 not_found_changes_nothing [OF h1 h2, of Floor] by blast
qed

text \<open>
  C5: when the store holds rentals for the pair, \<^verbatim>\<open>Rental.lookup\<close> returns one of them whose
  \<^verbatim>\<open>dateOut\<close> is the most recent: no rental of the pair was checked out later.
\<close>

theorem lookup_most_recent:
  assumes "\<not> lookup_fault e" and "x \<in> set (rentals w)" and "matching cid mid x"
  shows "\<exists>r. fst (Rental_lookup e cid mid w) = Inr (Some r)
      \<and> r \<in> set (rentals w) \<and> matching cid mid r
      \<and> (\<forall>y\<in>set (rentals w). matching cid mid y \<longrightarrow> dateOut y \<le> dateOut r)"
proof -
  have "findLatest cid mid (rentals w) \<noteq> None"
    using assms(2,3) by (auto simp: findLatest_None_iff)
  then obtain r where r: "findLatest cid mid (rentals w) = Some r" by auto
  have "fst (Rental_lookup e cid mid w) = Inr (Some r)"
    using assms(1) r by (simp add: Rental_lookup_def emit_def Let_def)
  moreover have "r \<in> set (rentals w)" and "matching cid mid r"
    using r by (rule findLatest_mem)+
  moreover have "\<forall>y\<in>set (rentals w). matching cid mid y \<longrightarrow> dateOut y \<le> dateOut r"
    using r by (blast intro: findLatest_latest)
  ultimately show ?thesis by blast
qed

theorem lookup_most_recent_witness:
  "\<not> lookup_fault env1 \<and> rental0 \<in> set (rentals world1)
   \<and> matching (customerId req1) (movieId req1) rental0
   \<and> fst (Rental_lookup env1 (customerId req1) (movieId req1) world1) = Inr (Some rental1)
   \<and> dateOut rental0 < dateOut rental1"
proof -
  have h1: "\<not> lookup_fault env1" by (simp add: env1_def)
  have h2: "rental0 \<in> set (rentals world1)" by (simp add: world1_def)
  have h3: "matching (customerId req1) (movieId req1) rental0"
    by (simp add: matching_def example_defs)
  have "fst (Rental_lookup env1 (customerId req1) (movieId req1) world1) = Inr (Some rental1)"
    by (simp add: Rental_lookup_def emit_def Let_def findLatest_def matching_def example_defs)
  moreover have "dateOut rental0 < dateOut rental1" by (simp add: rental0_def rental1_def)
  ultimately show ?thesis
    using h1 h2 h3 lookup_most_recent [OF h1 h2 h3] by simp
qed

text \<open>
  C6: in every run of the handler the calls it makes to the store extend the trace, and
  whenever an update of the movie is issued, the save of the rental has been completed
  before it and no save is issued or completed after it.
\<close>

theorem save_completes_before_update:
  "trace (snd (returns_post rnd e rq w))
     = trace w @ emitted w (snd (returns_post rnd e rq w))
   \<and> (\<forall>pre post m. emitted w (snd (returns_post rnd e rq w)) = pre @ UpdateIssued m # post
        \<longrightarrow> (\<exists>rid. SaveCompleted rid \<in> set pre)
          \<and> (\<forall>rid. SaveIssued rid \<notin> set post \<and> SaveCompleted rid \<notin> set post))"
proof -
  obtain cid mid rid m where "emitted w (snd (returns_post rnd e rq w)) \<in>
     {[LookupIssued cid mid],
      [LookupIssued cid mid, LookupCompleted],
      [LookupIssued cid mid, LookupCompleted, SaveIssued rid],
      [LookupIssued cid mid, LookupCompleted, SaveIssued rid, SaveCompleted rid,
       UpdateIssued m],
      [LookupIssued cid mid, LookupCompleted, SaveIssued rid, SaveCompleted rid,
       UpdateIssued m, UpdateCompleted m]}"
    using returns_post_emitted by blast
  then have "\<forall>pre post m. emitted w (snd (returns_post rnd e rq w)) = pre @ UpdateIssued m # post
        \<longrightarrow> (\<exists>rid. SaveCompleted rid \<in> set pre)
          \<and> (\<forall>rid. SaveIssued rid \<notin> set post \<and> SaveCompleted rid \<notin> set post)"
    by (auto simp: Cons_eq_append_conv)
  with returns_post_trace show ?thesis by blast
qed

theorem save_completes_before_update_witness:
  "emitted world1 (snd (returns_post Floor env1 req1 world1))
     = [LookupIssued (customerId req1) (movieId req1), LookupCompleted,
        SaveIssued (rental_id rental1), SaveCompleted (rental_id rental1)]
       @ UpdateIssued (movie_id (movie rental1)) # [UpdateCompleted (movie_id (movie rental1))]
   \<and> (\<exists>rid. SaveCompleted rid \<in> set [LookupIssued (customerId req1) (movieId req1),
         LookupCompleted, SaveIssued (rental_id rental1), SaveCompleted (rental_id rental1)])
   \<and> (\<forall>rid. SaveIssued rid \<notin> set [UpdateCompleted (movie_id (movie rental1))]
         \<and> SaveCompleted rid \<notin> set [UpdateCompleted (movie_id (movie rental1))])"
proof -
  have found: "findLatest (customerId req1) (movieId req1) (rentals world1) = Some rental1"
    by (simp add: example_defs findLatest_def matching_def)
  have ok: "\<not> lookup_fault env1" "\<not> save_fault env1" "\<not> update_fault env1"
    by (simp_all add: env1_def)
  have "open": "dateReturned rental1 = None"
    by (simp add: rental1_def)
  have h: "emitted world1 (snd (returns_post Floor env1 req1 world1))
     = [LookupIssued (customerId req1) (movieId req1), LookupCompleted,
        SaveIssued (rental_id rental1), SaveCompleted (rental_id rental1)]
       @ UpdateIssued (movie_id (movie rental1)) # [UpdateCompleted (movie_id (movie rental1))]"
    unfolding returns_post_success [OF ok(1) found "open" ok(2,3)] by (simp add: emitted_def)
  show ?thesis
    using h save_completes_before_update [of Floor env1 req1 world1] by blast
qed

text \<open>
  C7: stored rentals having distinct \<^verbatim>\<open>_id\<close>s, a rental whose \<^verbatim>\<open>dateReturned\<close> and
  \<^verbatim>\<open>rentalFee\<close> are absent is left as it is by a return request, unless the request resolves
  to this rental and saves it with both fields set. A rental whose \<^verbatim>\<open>dateReturned\<close> is set
  is stored unchanged after any sequence of return requests, under the same \<^verbatim>\<open>_id\<close> as
  no other rental, and no request answers 200 for it again.
\<close>

theorem return_fields_set_once:
  assumes "distinct (map rental_id (rentals w))" and "r \<in> set (rentals w)"
  shows "(dateReturned r = None \<and> rentalFee r = None \<longrightarrow>
            r \<in> set (rentals (snd (returns_post rnd e rq w)))
          \<or> (findLatest (customerId rq) (movieId rq) (rentals w) = Some r
             \<and> rental_return rnd (now e) r \<in> set (rentals (snd (returns_post rnd e rq w)))
             \<and> dateReturned (rental_return rnd (now e) r) \<noteq> None
             \<and> rentalFee (rental_return rnd (now e) r) \<noteq> None))
       \<and> (dateReturned r \<noteq> None \<longrightarrow>
            r \<in> set (rentals (run rnd reqs w))
          \<and> distinct (map rental_id (rentals (run rnd reqs w)))
          \<and> (\<forall>r'. rental_id r' = rental_id r \<longrightarrow>
                fst (returns_post rnd e rq w) \<noteq> Inr (Response 200 (RentalBody r'))))"
proof (intro conjI impI allI)
  show "r \<in> set (rentals (snd (returns_post rnd e rq w)))
          \<or> (findLatest (customerId rq) (movieId rq) (rentals w) = Some r
             \<and> rental_return rnd (now e) r \<in> set (rentals (snd (returns_post rnd e rq w)))
             \<and> dateReturned (rental_return rnd (now e) r) \<noteq> None
             \<and> rentalFee (rental_return rnd (now e) r) \<noteq> None)"
    using open_rental_step [OF assms, of rnd e rq] by (auto simp: rental_return_def)
next
  assume "dateReturned r \<noteq> None"
  with assms show "r \<in> set (rentals (run rnd reqs w))" by (rule returned_rental_kept_run)
next
  show "distinct (map rental_id (rentals (run rnd reqs w)))"
    using assms(1) by (simp add: run_ids)
next
  fix r' :: rentalDoc
  assume "dateReturned r \<noteq> None" "rental_id r' = rental_id r"
  with assms show "fst (returns_post rnd e rq w) \<noteq> Inr (Response 200 (RentalBody r'))"
    by (rule returned_rental_not_processed)
qed

theorem return_fields_set_once_witness:
  "distinct (map rental_id (rentals world1))
   \<and> rental1 \<in> set (rentals world1) \<and> dateReturned rental1 = None \<and> rentalFee rental1 = None
   \<and> rental_return Floor (now env1) rental1 \<in> set (rentals (snd (returns_post Floor env1 req1 world1)))
   \<and> rental0 \<in> set (rentals world1) \<and> dateReturned rental0 \<noteq> None
   \<and> rental0 \<in> set (rentals (run Floor [(env1, req1), (env1, req1)] world1))
   \<and> fst (returns_post Floor env1 req1 world1) \<noteq> Inr (Response 200 (RentalBody rental0))"
proof -
  have d: "distinct (map rental_id (rentals world1))"
    by (simp add: world1_def rental0_def rental1_def)
  have m1: "rental1 \<in> set (rentals world1)" and m0: "rental0 \<in> set (rentals world1)"
    by (simp_all add: world1_def)
  have o1: "dateReturned rental1 = None \<and> rentalFee rental1 = None"
    by (simp add: rental1_def)
  have c0: "dateReturned rental0 \<noteq> None"
    by (simp add: rental0_def)
  have gone: "rental1 \<notin> set (rentals (snd (returns_post Floor env1 req1 world1)))"
  proof -
    have found: "findLatest (customerId req1) (movieId req1) (rentals world1) = Some rental1"
      by (simp add: example_defs findLatest_def matching_def)
    have ok: "\<not> lookup_fault env1" "\<not> save_fault env1" "\<not> update_fault env1"
      by (simp_all add: env1_def)
    show ?thesis
      unfolding returns_post_success [OF ok(1) found conjunct1 [OF o1] ok(2,3)]
      by (simp add: world1_def replaceById_def rental_return_def rental0_def rental1_def)
  qed
  have "rental_return Floor (now env1) rental1
      \<in> set (rentals (snd (returns_post Floor env1 req1 world1)))"
    using return_fields_set_once [OF d m1, of Floor env1 req1] o1 gone by blast
  moreover have "rental0 \<in> set (rentals (run Floor [(env1, req1), (env1, req1)] world1))
      \<and> fst (returns_post Floor env1 req1 world1) \<noteq> Inr (Response 200 (RentalBody rental0))"
    using return_fields_set_once [OF d m0, of Floor env1 req1 "[(env1, req1), (env1, req1)]"] c0
    by blast
  ultimately show ?thesis
    using d m1 m0 o1 c0 by blast
qed

text \<open>
  C8: for a rental returned at the very instant of its checkout, \<^verbatim>\<open>rental.return\<close>, which
  has no failing branch, yields a defined fee that is not negative: it is zero, whatever the
  rate and the rounding.
\<close>

theorem same_instant_fee:
  "\<exists>fee. rentalFee (rental_return rnd (dateOut r) r) = Some fee \<and> 0 \<le> fee \<and> fee = 0"
  by (simp add: rental_return_def numberOfRentalDays_same)

text \<open>
  C9: the schema bounds \<^verbatim>\<open>numberInStock\<close> by 255, but the increment of the return route is
  an update, which no validator checks: returning a rental of a movie with 255 in stock
  succeeds and leaves 256 in stock.
\<close>

theorem stock_bound_exceeded:
  "numberInStock_valid (numberInStock movie_full)
   \<and> (\<exists>w'. returns_post Floor env1 req1 world_full
               = (Inr (Response 200 (RentalBody (rental_return Floor (now env1) rental1))), w')
         \<and> movies w' (movieId req1) = Some (movie_full\<lparr>numberInStock := 256\<rparr>)
         \<and> \<not> numberInStock_valid 256)"
proof -
  have found: "findLatest (customerId req1) (movieId req1) (rentals world_full) = Some rental1"
    by (simp add: example_defs world_full_def findLatest_def matching_def)
  have ok: "\<not> lookup_fault env1" "\<not> save_fault env1" "\<not> update_fault env1"
    by (simp_all add: env1_def)
  have "open": "dateReturned rental1 = None"
    by (simp add: rental1_def)
  show ?thesis
    unfolding returns_post_success [OF ok(1) found "open" ok(2,3)]
    by (simp add: numberInStock_valid_def movie_full_def world_full_def inc_numberInStock_def
        rental1_def movieSnap1_def req1_def)
qed

text \<open>
  C10: when the save of the rental is rejected, the exception reaches \<^verbatim>\<open>next\<close> and no
  response is sent; no update of the movie is issued, and movies and rentals are as before.
\<close>

theorem save_fault_stops_workflow:
  assumes "\<not> lookup_fault e" and "save_fault e"
    and "findLatest (customerId rq) (movieId rq) (rentals w) = Some r"
    and "dateReturned r = None"
  shows "\<exists>w'. asyncMiddleware (returns_post rnd e) rq w = (PassedToNext (StoreFault Save), w')
      \<and> movies w' = movies w \<and> rentals w' = rentals w
      \<and> emitted w w' = [LookupIssued (customerId rq) (movieId rq), LookupCompleted,
                         SaveIssued (rental_id r)]"
  by (simp add: asyncMiddleware_def returns_post_save_fault [OF assms(1,3,4,2)] emitted_def)

theorem save_fault_stops_workflow_witness:
  "\<not> lookup_fault env_save_fault \<and> save_fault env_save_fault
   \<and> findLatest (customerId req1) (movieId req1) (rentals world1) = Some rental1
   \<and> dateReturned rental1 = None
   \<and> (\<exists>w'. asyncMiddleware (returns_post Floor env_save_fault) req1 world1
          = (PassedToNext (StoreFault Save), w')
      \<and> movies w' = movies world1 \<and> rentals w' = rentals world1
      \<and> emitted world1 w' = [LookupIssued (customerId req1) (movieId req1), LookupCompleted,
                         SaveIssued (rental_id rental1)])"
proof -
  have h1: "\<not> lookup_fault env_save_fault" and h2: "save_fault env_save_fault"
    by (simp_all add: env_save_fault_def)
  have h3: "findLatest (customerId req1) (movieId req1) (rentals world1) = Some rental1"
    by (simp add: example_defs findLatest_def matching_def)
  have h4: "dateReturned rental1 = None" by (simp add: rental1_def)
  show ?thesis
    using h1 h2 h3 h4 save_fault_stops_workflow [OF h1 h2 h3 h4, of Floor] by blast
qed

end
